theory Spec2Isabelle
  imports Complex_Main "HOL-Library.Word"
begin

section \<open>The socket worker of the dubbo consumer\<close>

text \<open>
  A shallow embedding of \<^verbatim>\<open>packages/dubbo/src/consumer/socket-worker.ts\<close>.
  The class \<^verbatim>\<open>SocketWorker\<close> becomes a record of its fields; the objects its
  callbacks reach (the sockets it created, the pending timers, the clock, what the
  subscriber was told, the statistics entry and the debug log) are further fields of
  the same state, which every method and every callback takes and returns. A method
  that can throw returns a sum: \<open>Inl (e, w)\<close> is the exception \<open>e\<close> raised
  in state \<open>w\<close>, \<open>Inr w\<close> is a normal return.
\<close>

subsection \<open>Constants and plain data\<close>

text \<open>
  The enumeration \<^verbatim>\<open>SOCKET_STATUS\<close> is imported from \<^verbatim>\<open>./socket-status\<close>;
  its four members are the ones the worker assigns and compares.
\<close>

datatype SOCKET_STATUS = PADDING | CONNECTED | RETRY | CLOSED

definition RETRY_NUM :: int where
  "RETRY_NUM = 20"

definition RETRY_TIME :: nat where
  "RETRY_TIME = 3000"

type_synonym Buffer = "8 word list"

text \<open>
  A JavaScript number, as far as a port needs it: \<open>Number(port)\<close> is \<open>NaN\<close> for
  text that is no numeric literal, and a finite value otherwise.
\<close>

datatype jsnum = NaN | PosInfinity | NegInfinity | Num rat

datatype error = TypeError | RangeError | DecodeError | EncodeError

text \<open>The object literal \<^verbatim>\<open>{pid, host, port}\<close> handed to the subscriber.\<close>

record WorkerInfo =
  info_pid :: nat
  info_host :: string
  info_port :: jsnum

datatype 'r notification = OnConnect WorkerInfo | OnData 'r | OnClose WorkerInfo

text \<open>
  An \<^verbatim>\<open>ISocketSubscriber\<close> is the triple of callbacks \<^verbatim>\<open>onConnect\<close>,
  \<^verbatim>\<open>onData\<close>, \<^verbatim>\<open>onClose\<close>. It is either the constructor's triple of
  \<^verbatim>\<open>noop\<close>s or an observer of the caller's, named by a number, whose callbacks
  record what they are given (field \<open>notified\<close> below) and return.
\<close>

datatype subscriber = Noop | Observer nat

text \<open>One entry per call of \<^verbatim>\<open>log\<close> in the source.\<close>

datatype 'r log_entry =
    LogNew
  | LogInvoked nat
  | LogConnecting
  | LogConnected
  | LogReceiveData
  | LogError string
  | LogClosed bool int
  | LogHeartbeat
  | LogResult 'r

text \<open>The request context: the method \<^verbatim>\<open>write\<close> (here \<open>write_ctx\<close>) reads its request id and stamps its pid.\<close>

record Context =
  requestId :: nat
  ctx_pid :: "nat option"

text \<open>
  A \<^verbatim>\<open>net.Socket\<close>: where it connects to, whether \<^verbatim>\<open>setNoDelay\<close> was called,
  whether the connection is established, whether it is destroyed, whether it has emitted
  \<^verbatim>\<open>close\<close>, and the buffers written to it.
\<close>

record Socket =
  target :: "(jsnum \<times> string) option"
  noDelay :: bool
  established :: bool
  destroyed :: bool
  closeEmitted :: bool
  written :: "Buffer list"

definition newSocket :: Socket where
  "newSocket = \<lparr>target = None, noDelay = False, established = False,
     destroyed = False, closeEmitted = False, written = []\<rparr>"

text \<open>
  Modelled from the spec: the heartbeat monitor (\<^verbatim>\<open>serialization/heartbeat\<close> is not
  among the sources). It is constructed with a label, the transport and a timeout
  callback; \<^verbatim>\<open>setWriteTimestamp\<close> notes a write and \<^verbatim>\<open>emit\<close> notes that
  liveness was observed. The timeout callback is always \<^verbatim>\<open>() => this._onClose(false)\<close>
  and is the event \<open>HeartBeatTimeout\<close> below.
\<close>

record HeartBeat =
  hb_label :: nat
  hb_transport :: "nat option"
  lastWriteTimestamp :: "nat option"
  lastLiveness :: "nat option"

definition HeartBeat_from :: "nat \<Rightarrow> nat option \<Rightarrow> HeartBeat" where
  "HeartBeat_from l t =
     \<lparr>hb_label = l, hb_transport = t, lastWriteTimestamp = None, lastLiveness = None\<rparr>"

definition setWriteTimestamp :: "nat \<Rightarrow> HeartBeat \<Rightarrow> HeartBeat" where
  "setWriteTimestamp now hb = hb\<lparr>lastWriteTimestamp := Some now\<rparr>"

definition emit :: "nat \<Rightarrow> HeartBeat \<Rightarrow> HeartBeat" where
  "emit now hb = hb\<lparr>lastLiveness := Some now\<rparr>"

subsection \<open>The worker and what its callbacks reach\<close>

record SocketWorker =
  pid :: nat
  host :: string
  port :: jsnum
  retry :: int
  retryTimeoutId :: "nat option"
  heartBeatTimer :: "HeartBeat option"
  socket :: "nat option"
  status :: SOCKET_STATUS
  decodeBuff :: Buffer
  subscriber :: subscriber

text \<open>
  \<open>sockets\<close> holds every socket the worker has created (a handle is an index),
  \<open>timers\<close> the pending timeouts with their due time, \<open>clock\<close> the time in
  milliseconds, \<open>notified\<close> the calls the observers received, in order.
\<close>

record 'r world = SocketWorker +
  sockets :: "Socket list"
  timers :: "(nat \<times> nat) list"
  nextTimer :: nat
  clock :: nat
  notified :: "(nat \<times> 'r notification) list"
  statistics :: nat
  logged :: "'r log_entry list"

type_synonym 'r outcome = "(error \<times> 'r world) + 'r world"

text \<open>
  What the worker imports and does not define: \<^verbatim>\<open>Number\<close> of the language
  (\<open>None\<close> is \<^verbatim>\<open>undefined\<close>), the port check that \<^verbatim>\<open>net.Socket.connect\<close> makes
  before it returns, the frame assembler \<^verbatim>\<open>DecodeBuffer.receive\<close> (from the bytes
  buffered and the bytes received to the complete frames and the bytes kept),
  \<^verbatim>\<open>HeartBeat.isHeartBeat\<close>, \<^verbatim>\<open>decodeDubboResponse\<close> and
  \<^verbatim>\<open>DubboRequestEncoder.encode\<close> (\<open>None\<close> when they throw). They are parameters
  of the model.
\<close>

record 'r collaborators =
  Number :: "string option \<Rightarrow> jsnum"
  legalPort :: "jsnum \<Rightarrow> bool"
  receive :: "Buffer \<Rightarrow> Buffer \<Rightarrow> Buffer list \<times> Buffer"
  isHeartBeat :: "Buffer \<Rightarrow> bool"
  decodeDubboResponse :: "Buffer \<Rightarrow> 'r option"
  encode :: "Context \<Rightarrow> Buffer option"

subsection \<open>Sockets, timers, subscriber, log\<close>

definition debug_log :: "'r log_entry \<Rightarrow> 'r world \<Rightarrow> 'r world" where
  "debug_log e w = w\<lparr>logged := logged w @ [e]\<rparr>"

definition info :: "'r world \<Rightarrow> WorkerInfo" where
  "info w = \<lparr>info_pid = pid w, info_host = host w, info_port = port w\<rparr>"

definition notify :: "'r notification \<Rightarrow> 'r world \<Rightarrow> 'r world" where
  "notify n w =
     (case subscriber w of
        Noop \<Rightarrow> w
      | Observer k \<Rightarrow> w\<lparr>notified := notified w @ [(k, n)]\<rparr>)"

definition update_socket :: "nat \<Rightarrow> (Socket \<Rightarrow> Socket) \<Rightarrow> 'r world \<Rightarrow> 'r world" where
  "update_socket h f w =
     (if h < length (sockets w) then w\<lparr>sockets := (sockets w)[h := f (sockets w ! h)]\<rparr>
      else w)"

definition destroy :: "nat \<Rightarrow> 'r world \<Rightarrow> 'r world" where
  "destroy h w = update_socket h (\<lambda>s. s\<lparr>destroyed := True\<rparr>) w"

text \<open>A write to a destroyed socket sends nothing.\<close>

definition socket_write :: "nat \<Rightarrow> Buffer \<Rightarrow> 'r world \<Rightarrow> 'r world" where
  "socket_write h b w =
     update_socket h (\<lambda>s. if destroyed s then s else s\<lparr>written := written s @ [b]\<rparr>) w"

definition clearTimeout :: "nat option \<Rightarrow> 'r world \<Rightarrow> 'r world" where
  "clearTimeout t w =
     (case t of
        None \<Rightarrow> w
      | Some i \<Rightarrow> w\<lparr>timers := filter (\<lambda>p. fst p \<noteq> i) (timers w)\<rparr>)"

definition setTimeout :: "nat \<Rightarrow> 'r world \<Rightarrow> nat \<times> 'r world" where
  "setTimeout delay w =
     (nextTimer w,
      w\<lparr>timers := timers w @ [(nextTimer w, clock w + delay)],
        nextTimer := nextTimer w + 1\<rparr>)"

subsection \<open>The private methods\<close>

definition initSocket :: "'r collaborators \<Rightarrow> 'r world \<Rightarrow> 'r outcome" where
  "initSocket d w =
     (let w1 = debug_log LogConnecting w;
          w2 = (case socket w1 of None \<Rightarrow> w1 | Some h \<Rightarrow> destroy h w1);
          h' = length (sockets w2);
          w3 = w2\<lparr>socket := Some h', sockets := sockets w2 @ [newSocket]\<rparr>;
          w4 = update_socket h' (\<lambda>s. s\<lparr>noDelay := True\<rparr>) w3
      in if legalPort d (port w4)
         then Inr (update_socket h' (\<lambda>s. s\<lparr>target := Some (port w4, host w4)\<rparr>) w4)
         else Inl (RangeError, w4))"

definition onConnected :: "'r world \<Rightarrow> 'r world" where
  "onConnected w =
     (let w1 = debug_log LogConnected w;
          w2 = w1\<lparr>status := CONNECTED\<rparr>;
          w3 = w2\<lparr>retry := RETRY_NUM\<rparr>;
          w4 = w3\<lparr>heartBeatTimer := Some (HeartBeat_from (pid w3) (socket w3))\<rparr>
      in notify (OnConnect (info w4)) w4)"

definition onError :: "string \<Rightarrow> 'r world \<Rightarrow> 'r world" where
  "onError err w = debug_log (LogError err) w"

text \<open>The arrow function that \<^verbatim>\<open>_onClose\<close> hands to \<^verbatim>\<open>setTimeout\<close>.\<close>

definition retryCallback :: "'r collaborators \<Rightarrow> 'r world \<Rightarrow> 'r outcome" where
  "retryCallback d w = initSocket d (w\<lparr>retry := retry w - 1\<rparr>)"

definition onClose :: "bool \<Rightarrow> 'r world \<Rightarrow> 'r outcome" where
  "onClose hadError w =
     (let w1 = debug_log (LogClosed hadError (retry w)) w;
          w2 = w1\<lparr>decodeBuff := []\<rparr>
      in if retry w2 > 0 then
           (let w3 = w2\<lparr>status := RETRY\<rparr>;
                w4 = clearTimeout (retryTimeoutId w3) w3;
                (i, w5) = setTimeout RETRY_TIME w4
            in Inr (w5\<lparr>retryTimeoutId := Some i\<rparr>))
         else
           (let w3 = w2\<lparr>status := CLOSED\<rparr>
            in case socket w3 of
                 None \<Rightarrow> Inl (TypeError, w3)
               | Some h \<Rightarrow> Inr (notify (OnClose (info w3)) (destroy h w3))))"

definition onSubscribeDecodeBuff :: "'r collaborators \<Rightarrow> Buffer \<Rightarrow> 'r world \<Rightarrow> 'r outcome" where
  "onSubscribeDecodeBuff d data w =
     (if isHeartBeat d data then
        (let w1 = debug_log LogHeartbeat w
         in case heartBeatTimer w1 of
              None \<Rightarrow> Inl (TypeError, w1)
            | Some hb \<Rightarrow> Inr (w1\<lparr>heartBeatTimer := Some (emit (clock w1) hb)\<rparr>))
      else
        (case decodeDubboResponse d data of
           None \<Rightarrow> Inl (DecodeError, w)
         | Some json \<Rightarrow> Inr (notify (OnData json) (debug_log (LogResult json) w))))"

text \<open>
  The frame assembler calls its subscriber once per complete frame, in order; an
  exception of the subscriber ends the delivery.
\<close>

fun deliver :: "'r collaborators \<Rightarrow> Buffer list \<Rightarrow> 'r world \<Rightarrow> 'r outcome" where
  "deliver d [] w = Inr w"
| "deliver d (f # fs) w =
     (case onSubscribeDecodeBuff d f w of
        Inl x \<Rightarrow> Inl x
      | Inr w' \<Rightarrow> deliver d fs w')"

definition onData :: "'r collaborators \<Rightarrow> Buffer \<Rightarrow> 'r world \<Rightarrow> 'r outcome" where
  "onData d data w =
     (let w1 = debug_log LogReceiveData w;
          (frames, rest) = receive d (decodeBuff w1) data
      in deliver d frames (w1\<lparr>decodeBuff := rest\<rparr>))"

subsection \<open>The public methods\<close>

definition SocketWorker_new :: "'r collaborators \<Rightarrow> nat \<Rightarrow> string \<Rightarrow> jsnum \<Rightarrow> 'r outcome" where
  "SocketWorker_new d pid0 h p =
     initSocket d
       \<lparr>pid = pid0 + 1, host = h, port = p, retry = RETRY_NUM, retryTimeoutId = None,
        heartBeatTimer = None, socket = None, status = PADDING, decodeBuff = [],
        subscriber = Noop, sockets = [], timers = [], nextTimer = 0, clock = 0,
        notified = [], statistics = 0, logged = [LogNew]\<rparr>"

text \<open>\<^verbatim>\<open>String.prototype.split\<close> with a one-character separator.\<close>

fun split :: "char \<Rightarrow> string \<Rightarrow> string list" where
  "split c [] = [[]]"
| "split c (x # xs) =
     (if x = c then [] # split c xs
      else (case split c xs of [] \<Rightarrow> [[x]] | p # ps \<Rightarrow> (x # p) # ps))"

text \<open>
  \<^verbatim>\<open>const [host, port] = url.split(':')\<close>: the first two parts; a part that is
  missing is \<^verbatim>\<open>undefined\<close>. The first part always exists.
\<close>

definition from_url :: "'r collaborators \<Rightarrow> nat \<Rightarrow> string \<Rightarrow> 'r outcome" where
  "from_url d pid0 url =
     (let parts = split CHR '':'' url;
          h = (case parts of [] \<Rightarrow> [] | x # _ \<Rightarrow> x);
          p = (case parts of _ # y # _ \<Rightarrow> Some y | _ \<Rightarrow> None)
      in SocketWorker_new d pid0 h (Number d p))"

definition write_ctx :: "'r collaborators \<Rightarrow> Context \<Rightarrow> 'r world \<Rightarrow> 'r outcome" where
  "write_ctx d ctx w =
     (let w1 = debug_log (LogInvoked (requestId ctx)) w;
          w2 = w1\<lparr>statistics := statistics w1 + 1\<rparr>
      in case heartBeatTimer w2 of
           None \<Rightarrow> Inl (TypeError, w2)
         | Some hb \<Rightarrow>
             (let w3 = w2\<lparr>heartBeatTimer := Some (setWriteTimestamp (clock w2) hb)\<rparr>;
                  ctx' = ctx\<lparr>ctx_pid := Some (pid w3)\<rparr>
              in case socket w3 of
                   None \<Rightarrow> Inl (TypeError, w3)
                 | Some h \<Rightarrow>
                     (case encode d ctx' of
                        None \<Rightarrow> Inl (EncodeError, w3)
                      | Some b \<Rightarrow> Inr (socket_write h b w3))))"

definition isAvaliable :: "'r world \<Rightarrow> bool" where
  "isAvaliable w = (status w = CONNECTED)"

definition isRetry :: "'r world \<Rightarrow> bool" where
  "isRetry w = (status w = RETRY)"

definition resetRetry :: "'r collaborators \<Rightarrow> 'r world \<Rightarrow> 'r outcome" where
  "resetRetry d w =
     (let w1 = w\<lparr>retry := RETRY_NUM\<rparr>
      in if status w1 = CLOSED then initSocket d w1 else Inr w1)"

definition subscribe :: "subscriber \<Rightarrow> 'r world \<Rightarrow> 'r world" where
  "subscribe s w = w\<lparr>subscriber := s\<rparr>"

subsection \<open>Events\<close>

text \<open>
  Everything that can happen to a worker: a socket emits \<^verbatim>\<open>connect\<close>,
  \<^verbatim>\<open>data\<close>, \<^verbatim>\<open>error\<close> or \<^verbatim>\<open>close\<close>, a timeout falls due, a heartbeat
  monitor times out, time passes, or the owner calls a public method. All of it runs on
  one thread, one event after the other.
\<close>

datatype event =
    Connect nat
  | Data nat Buffer
  | Error nat string
  | Close nat bool
  | Timeout nat
  | HeartBeatTimeout
  | Advance nat
  | CallWrite Context
  | CallResetRetry
  | CallSubscribe subscriber

text \<open>
  A socket connects once, while it is not destroyed; it delivers data while it is
  established and not destroyed; it emits \<^verbatim>\<open>close\<close> once. A timeout fires when it
  is pending and due. A heartbeat monitor can time out once one exists.
\<close>

fun enabled :: "'r world \<Rightarrow> event \<Rightarrow> bool" where
  "enabled w (Connect h) =
     (h < length (sockets w) \<and> \<not> destroyed (sockets w ! h) \<and> \<not> established (sockets w ! h)
      \<and> target (sockets w ! h) \<noteq> None)"
| "enabled w (Data h b) =
     (h < length (sockets w) \<and> \<not> destroyed (sockets w ! h) \<and> established (sockets w ! h))"
| "enabled w (Error h e) = (h < length (sockets w))"
| "enabled w (Close h e) = (h < length (sockets w) \<and> \<not> closeEmitted (sockets w ! h))"
| "enabled w (Timeout i) = (list_ex (\<lambda>p. fst p = i \<and> snd p \<le> clock w) (timers w))"
| "enabled w HeartBeatTimeout = (heartBeatTimer w \<noteq> None)"
| "enabled w (Advance n) = True"
| "enabled w (CallWrite ctx) = True"
| "enabled w CallResetRetry = True"
| "enabled w (CallSubscribe s) = True"

fun fire :: "'r collaborators \<Rightarrow> 'r world \<Rightarrow> event \<Rightarrow> 'r outcome" where
  "fire d w (Connect h) =
     Inr (onConnected (update_socket h (\<lambda>s. s\<lparr>established := True\<rparr>) w))"
| "fire d w (Data h b) = onData d b w"
| "fire d w (Error h e) = Inr (onError e w)"
| "fire d w (Close h e) =
     onClose e (update_socket h (\<lambda>s. s\<lparr>destroyed := True, closeEmitted := True\<rparr>) w)"
| "fire d w (Timeout i) =
     retryCallback d (w\<lparr>timers := filter (\<lambda>p. fst p \<noteq> i) (timers w)\<rparr>)"
| "fire d w HeartBeatTimeout = onClose False w"
| "fire d w (Advance n) = Inr (w\<lparr>clock := clock w + n\<rparr>)"
| "fire d w (CallWrite ctx) = write_ctx d ctx w"
| "fire d w CallResetRetry = resetRetry d w"
| "fire d w (CallSubscribe s) = Inr (subscribe s w)"

text \<open>The state an event leaves behind, whether its handler returned or threw.\<close>

definition after :: "'r outcome \<Rightarrow> 'r world" where
  "after r = (case r of Inl (e, w) \<Rightarrow> w | Inr w \<Rightarrow> w)"

text \<open>
  Running a list of events from a state; \<open>None\<close> when one of them cannot happen in
  the state it meets.
\<close>

fun exec :: "'r collaborators \<Rightarrow> 'r world \<Rightarrow> event list \<Rightarrow> 'r world option" where
  "exec d w [] = Some w"
| "exec d w (e # es) = (if enabled w e then exec d (after (fire d w e)) es else None)"

text \<open>The states a list of events passes through, the first one included.\<close>

fun visited :: "'r collaborators \<Rightarrow> 'r world \<Rightarrow> event list \<Rightarrow> 'r world list" where
  "visited d w [] = [w]"
| "visited d w (e # es) = w # visited d (after (fire d w e)) es"

text \<open>A worker made by the factory, then a list of events.\<close>

definition run :: "'r collaborators \<Rightarrow> nat \<Rightarrow> string \<Rightarrow> event list \<Rightarrow> 'r world option" where
  "run d pid0 url es =
     (case from_url d pid0 url of Inl x \<Rightarrow> None | Inr w \<Rightarrow> exec d w es)"

text \<open>The handles of the sockets that are not destroyed.\<close>

definition open_handles :: "'r world \<Rightarrow> nat list" where
  "open_handles w = filter (\<lambda>h. \<not> destroyed (sockets w ! h)) [0..<length (sockets w)]"

subsection \<open>Invariants\<close>

text \<open>
  Every pending timeout is the one the worker holds in \<^verbatim>\<open>_retryTimeoutId\<close>, and there
  is at most one; the retry count stays within its bounds and is positive while a
  timeout is pending; the worker holds a handle, and every other socket is destroyed.
\<close>

definition timer_inv :: "'r world \<Rightarrow> bool" where
  "timer_inv w =
     (length (timers w) \<le> 1 \<and> list_all (\<lambda>p. retryTimeoutId w = Some (fst p)) (timers w))"

definition retry_inv :: "'r world \<Rightarrow> bool" where
  "retry_inv w = (0 \<le> retry w \<and> retry w \<le> RETRY_NUM \<and> (timers w = [] \<or> 0 < retry w))"

definition socket_inv :: "'r world \<Rightarrow> bool" where
  "socket_inv w =
     (list_ex (\<lambda>h. socket w = Some h) [0..<length (sockets w)] \<and>
      list_all (\<lambda>h. destroyed (sockets w ! h) \<or> socket w = Some h) [0..<length (sockets w)])"

definition worker_inv :: "'r world \<Rightarrow> bool" where
  "worker_inv w = (timer_inv w \<and> retry_inv w \<and> socket_inv w)"

subsection \<open>Concrete collaborators and the scenario of a server that is down\<close>

text \<open>
  The port check of \<^verbatim>\<open>net.Socket.connect\<close> in Node.js: a port that is not an
  integer from 0 to 65535 makes \<^verbatim>\<open>connect\<close> throw a \<^verbatim>\<open>RangeError\<close> before it
  returns.
\<close>

definition isLegalPort :: "jsnum \<Rightarrow> bool" where
  "isLegalPort n =
     (case n of Num q \<Rightarrow> q = of_int \<lfloor>q\<rfloor> \<and> 0 \<le> q \<and> q \<le> 65535 | _ \<Rightarrow> False)"

text \<open>
  \<^verbatim>\<open>Number\<close> on \<^verbatim>\<open>undefined\<close> (which is \<^verbatim>\<open>NaN\<close>), on the empty string (which
  is 0) and on a string of decimal digits (its value). Strings with any other character
  are sent to \<^verbatim>\<open>NaN\<close>: that is the language's answer for text that is no numeric
  literal, while signs, white space, fractions, exponents and radix prefixes are left
  out of this function. It is used to evaluate the model on concrete endpoints only.
\<close>

fun digits_value :: "nat \<Rightarrow> string \<Rightarrow> nat option" where
  "digits_value acc [] = Some acc"
| "digits_value acc (c # cs) =
     (if 48 \<le> (of_char c :: nat) \<and> (of_char c :: nat) \<le> 57
      then digits_value (10 * acc + (of_char c - 48)) cs
      else None)"

definition Number_digits :: "string option \<Rightarrow> jsnum" where
  "Number_digits s =
     (case s of
        None \<Rightarrow> NaN
      | Some t \<Rightarrow> (case digits_value 0 t of None \<Rightarrow> NaN | Some n \<Rightarrow> Num (of_nat n)))"

text \<open>
  Collaborators to evaluate with: every non-empty chunk is one frame, the frame
  \<open>[0xda, 0xbb, 0xe2]\<close> is the heartbeat probe, the decoder returns the frame and the
  encoder the request id.
\<close>

definition example :: "Buffer collaborators" where
  "example =
     \<lparr>Number = Number_digits, legalPort = isLegalPort,
      receive = (\<lambda>buf data. if data = [] then ([], buf) else ([buf @ data], [])),
      isHeartBeat = (\<lambda>f. f = [0xda, 0xbb, 0xe2]),
      decodeDubboResponse = Some,
      encode = (\<lambda>ctx. Some [of_nat (requestId ctx)])\<rparr>"

text \<open>
  The \<open>k\<close>-th socket fails to connect: it emits \<^verbatim>\<open>error\<close>, then \<^verbatim>\<open>close\<close>.
  In a retry cycle the retry delay then passes and the \<open>k\<close>-th timeout fires.
  \<open>failures n\<close> is the history up to the \<open>n\<close>-th failure to connect.
\<close>

definition failure :: "nat \<Rightarrow> event list" where
  "failure k = [Error k ''ECONNREFUSED'', Close k True]"

definition retry_cycle :: "nat \<Rightarrow> event list" where
  "retry_cycle k = failure k @ [Advance RETRY_TIME, Timeout k]"

definition failures :: "nat \<Rightarrow> event list" where
  "failures n = concat (map retry_cycle [0..<n - 1]) @ failure (n - 1)"

text \<open>
  The state of a worker that has only seen failures, \<open>j\<close> retry cycles after its
  construction: socket \<open>j\<close> is connecting, no timeout is pending, nothing was notified.
\<close>

definition awaiting :: "'r collaborators \<Rightarrow> nat \<Rightarrow> WorkerInfo \<Rightarrow> nat \<Rightarrow> 'r world \<Rightarrow> bool" where
  "awaiting d k i j w =
     (socket w = Some j \<and> length (sockets w) = j + 1 \<and> \<not> closeEmitted (sockets w ! j) \<and>
      retry w = RETRY_NUM - int j \<and> timers w = [] \<and> nextTimer w = j \<and>
      notified w = [] \<and> subscriber w = Observer k \<and> info w = i \<and>
      legalPort d (port w) \<and> status w \<noteq> CLOSED \<and> status w \<noteq> CONNECTED)"

text \<open>
  The part of the state that the data path (frames, heartbeat stamps, notifications,
  statistics, log) does not touch: those fields are blanked.
\<close>

definition control :: "'r world \<Rightarrow> 'r world" where
  "control w = w\<lparr>heartBeatTimer := None, notified := [], statistics := 0, logged := []\<rparr>"

subsection \<open>Concrete states\<close>

text \<open>
  The worker that \<^verbatim>\<open>SocketWorker.from('127.0.0.1:20880')\<close> returns when it is the
  first of the process; the same worker with an observer subscribed; the latter after
  its first socket has connected, and after its first socket has closed instead.
\<close>

definition fresh_worker :: "Buffer world" where
  "fresh_worker =
     \<lparr>pid = 1, host = ''127.0.0.1'', port = Num 20880, retry = 20, retryTimeoutId = None,
      heartBeatTimer = None, socket = Some 0, status = PADDING, decodeBuff = [],
      subscriber = Noop,
      sockets = [\<lparr>target = Some (Num 20880, ''127.0.0.1''), noDelay = True,
        established = False, destroyed = False, closeEmitted = False, written = []\<rparr>],
      timers = [], nextTimer = 0, clock = 0, notified = [], statistics = 0,
      logged = [LogNew, LogConnecting]\<rparr>"

definition observed_worker :: "Buffer world" where
  "observed_worker = subscribe (Observer 7) fresh_worker"

definition connected_worker :: "Buffer world" where
  "connected_worker = after (fire example observed_worker (Connect 0))"

definition retrying_worker :: "Buffer world" where
  "retrying_worker = after (fire example observed_worker (Close 0 True))"

text \<open>The observed worker after its 21st failure to connect.\<close>

definition exhausted_worker :: "Buffer world" where
  "exhausted_worker = the (exec example observed_worker (failures 21))"

section \<open>Proofs\<close>

subsection \<open>Running events; the data path leaves the control state alone\<close>

lemma after_simps [simp]: "after (Inl (e, w)) = w" "after (Inr w) = w"
  by (simp_all add: after_def)

lemma exec_append:
  "exec d w (xs @ ys) = (case exec d w xs of None \<Rightarrow> None | Some w' \<Rightarrow> exec d w' ys)"
  by (induction xs arbitrary: w) auto

lemma control_frame: "control (after (onSubscribeDecodeBuff d f w)) = control w"
  by (auto simp: onSubscribeDecodeBuff_def control_def debug_log_def notify_def Let_def
      split: option.splits subscriber.splits)

lemma control_deliver: "control (after (deliver d fs w)) = control w"
proof (induction fs arbitrary: w)
  case Nil
  show ?case by simp
next
  case (Cons f fs)
  show ?case
  proof (cases "onSubscribeDecodeBuff d f w")
    case (Inl x)
    then show ?thesis using control_frame [of d f w] by (cases x) simp
  next
    case (Inr w')
    then show ?thesis using control_frame [of d f w] Cons.IH [of w'] by simp
  qed
qed

lemma control_onData:
  "control (after (onData d b w)) = (control w)\<lparr>decodeBuff := snd (receive d (decodeBuff w) b)\<rparr>"
proof -
  obtain fs r where rc: "receive d (decodeBuff w) b = (fs, r)" by (cases "receive d (decodeBuff w) b")
  have "control (after (onData d b w)) = control ((debug_log LogReceiveData w)\<lparr>decodeBuff := r\<rparr>)"
    using rc by (simp add: onData_def Let_def control_deliver debug_log_def)
  then show ?thesis using rc by (simp add: control_def debug_log_def)
qed

lemma inv_control: "worker_inv (control w) = worker_inv w"
  by (simp add: worker_inv_def timer_inv_def retry_inv_def socket_inv_def control_def split: option.splits)

lemma inv_decodeBuff: "worker_inv (w\<lparr>decodeBuff := b\<rparr>) = worker_inv w"
  by (simp add: worker_inv_def timer_inv_def retry_inv_def socket_inv_def split: option.splits)

lemma inv_onData: "worker_inv w \<Longrightarrow> worker_inv (after (onData d b w))"
  using inv_control [of "after (onData d b w)"] inv_control [of w]
  by (simp add: control_onData inv_decodeBuff)

subsection \<open>The invariants hold in every state a worker reaches\<close>

lemma inv_initSocket:
  assumes "timer_inv w" "retry_inv w" "socket_inv w"
  shows "worker_inv (after (initSocket d w))"
  using assms
  apply (simp add: worker_inv_def timer_inv_def retry_inv_def socket_inv_def initSocket_def Let_def
      debug_log_def destroy_def update_socket_def newSocket_def split: option.splits)
  apply (auto simp: list_all_iff list_ex_iff nth_append nth_list_update)
  done


lemma inv_onClose:
  assumes "worker_inv w"
  shows "worker_inv (after (onClose e w))"
  using assms
  apply (cases "timers w")
  apply (simp_all add: worker_inv_def timer_inv_def retry_inv_def socket_inv_def onClose_def Let_def
      debug_log_def destroy_def update_socket_def clearTimeout_def setTimeout_def notify_def
      split: option.splits subscriber.splits)
  apply (auto simp: list_all_iff list_ex_iff nth_list_update)
  done

lemma inv_close_flags:
  "worker_inv w \<Longrightarrow> worker_inv (update_socket h (\<lambda>s. s\<lparr>destroyed := True, closeEmitted := True\<rparr>) w)"
  apply (simp add: worker_inv_def timer_inv_def retry_inv_def socket_inv_def update_socket_def
      split: option.splits)
  apply (auto simp: list_all_iff list_ex_iff nth_list_update)
  done

lemma inv_onConnected:
  "worker_inv w \<Longrightarrow> worker_inv (onConnected (update_socket h (\<lambda>s. s\<lparr>established := True\<rparr>) w))"
  apply (simp add: worker_inv_def timer_inv_def retry_inv_def socket_inv_def update_socket_def
      onConnected_def Let_def debug_log_def notify_def RETRY_NUM_def
      split: option.splits subscriber.splits)
  apply (auto simp: list_all_iff list_ex_iff nth_list_update)
  done

lemma inv_write: "worker_inv w \<Longrightarrow> worker_inv (after (write_ctx d ctx w))"
  apply (simp add: worker_inv_def timer_inv_def retry_inv_def socket_inv_def update_socket_def
      write_ctx_def Let_def debug_log_def socket_write_def
      split: option.splits)
  apply (auto simp: list_all_iff list_ex_iff nth_list_update)
  done

lemma inv_resetRetry: "worker_inv w \<Longrightarrow> worker_inv (after (resetRetry d w))"
proof -
  assume i: "worker_inv w"
  have a: "timer_inv (w\<lparr>retry := RETRY_NUM\<rparr>)" "retry_inv (w\<lparr>retry := RETRY_NUM\<rparr>)"
    "socket_inv (w\<lparr>retry := RETRY_NUM\<rparr>)"
    using i by (simp_all add: worker_inv_def timer_inv_def retry_inv_def socket_inv_def RETRY_NUM_def)
  show ?thesis
    using a inv_initSocket [OF a, of d] by (simp add: resetRetry_def Let_def worker_inv_def)
qed

lemma inv_timeout:
  assumes "worker_inv w" "enabled w (Timeout i)"
  shows "worker_inv (after (fire d w (Timeout i)))"
proof -
  let ?w = "w\<lparr>timers := filter (\<lambda>p. fst p \<noteq> i) (timers w), retry := retry w - 1\<rparr>"
  from assms(2) obtain p where p: "p \<in> set (timers w)" "fst p = i"
    by (auto simp: list_ex_iff)
  from assms(1) have "\<forall>q \<in> set (timers w). retryTimeoutId w = Some (fst q)"
    by (simp add: worker_inv_def timer_inv_def list_all_iff)
  with p have all: "\<forall>q \<in> set (timers w). fst q = i"
    by (metis option.inject)
  then have emp: "filter (\<lambda>p. fst p \<noteq> i) (timers w) = []"
    by (simp add: filter_empty_conv)
  from p have ne: "timers w \<noteq> []" by auto
  have a: "timer_inv ?w" "retry_inv ?w" "socket_inv ?w"
    using assms(1) emp ne
    by (simp_all add: worker_inv_def timer_inv_def retry_inv_def socket_inv_def)
  show ?thesis
    using inv_initSocket [OF a, of d] by (simp add: retryCallback_def)
qed

lemma inv_fire: "worker_inv w \<Longrightarrow> enabled w e \<Longrightarrow> worker_inv (after (fire d w e))"
proof (cases e)
  case (Connect h)
  assume "worker_inv w" then show ?thesis using Connect by (simp add: inv_onConnected)
next
  case (Data h b)
  assume "worker_inv w" then show ?thesis using Data by (simp add: inv_onData)
next
  case (Error h s)
  assume "worker_inv w" then show ?thesis using Error
    by (simp add: onError_def debug_log_def worker_inv_def timer_inv_def retry_inv_def socket_inv_def)
next
  case (Close h b)
  assume "worker_inv w" then show ?thesis using Close by (simp add: inv_onClose inv_close_flags)
next
  case (Timeout i)
  assume "worker_inv w" "enabled w e" then show ?thesis using Timeout inv_timeout by blast
next
  case HeartBeatTimeout
  assume "worker_inv w" then show ?thesis using HeartBeatTimeout by (simp add: inv_onClose)
next
  case (Advance n)
  assume "worker_inv w" then show ?thesis using Advance
    by (simp add: worker_inv_def timer_inv_def retry_inv_def socket_inv_def)
next
  case (CallWrite c)
  assume "worker_inv w" then show ?thesis using CallWrite by (simp add: inv_write)
next
  case CallResetRetry
  assume "worker_inv w" then show ?thesis using CallResetRetry by (simp add: inv_resetRetry)
next
  case (CallSubscribe s)
  assume "worker_inv w" then show ?thesis using CallSubscribe
    by (simp add: subscribe_def worker_inv_def timer_inv_def retry_inv_def socket_inv_def)
qed

lemma inv_exec: "worker_inv w \<Longrightarrow> exec d w es = Some w' \<Longrightarrow> worker_inv w'"
proof (induction es arbitrary: w)
  case Nil
  then show ?case by simp
next
  case (Cons e es)
  from Cons.prems have en: "enabled w e" and ex: "exec d (after (fire d w e)) es = Some w'"
    by (simp_all split: if_splits)
  show ?case using Cons.IH [OF inv_fire [OF Cons.prems(1) en] ex] .
qed

lemma inv_new: "SocketWorker_new d pid0 h p = Inr w \<Longrightarrow> worker_inv w"
  apply (simp add: SocketWorker_new_def initSocket_def Let_def debug_log_def update_socket_def
      newSocket_def split: if_splits)
  apply (auto simp: worker_inv_def timer_inv_def retry_inv_def socket_inv_def RETRY_NUM_def)
  done


subsection \<open>The retry count, event by event\<close>

lemma retry_control: "retry (control w) = retry w"
  by (simp add: control_def)

lemma retry_initSocket: "retry (after (initSocket d w)) = retry w"
  by (simp add: initSocket_def Let_def debug_log_def destroy_def update_socket_def
      split: option.splits)

lemma retry_onClose: "retry (after (onClose e w)) = retry w"
  by (simp add: onClose_def Let_def debug_log_def destroy_def update_socket_def
      clearTimeout_def setTimeout_def notify_def split: option.splits subscriber.splits)

lemma retry_onData: "retry (after (onData d b w)) = retry w"
  using arg_cong [OF control_onData, of retry d b w] by (simp add: control_def)

lemma retry_write: "retry (after (write_ctx d c w)) = retry w"
  by (simp add: write_ctx_def Let_def debug_log_def socket_write_def update_socket_def
      split: option.splits)

lemma retry_fire:
  "retry (after (fire d w e)) =
     (case e of
        Timeout i \<Rightarrow> retry w - 1
      | Connect h \<Rightarrow> RETRY_NUM
      | CallResetRetry \<Rightarrow> RETRY_NUM
      | _ \<Rightarrow> retry w)"
proof (cases e)
  case (Connect h)
  then show ?thesis
    by (simp add: onConnected_def Let_def debug_log_def notify_def update_socket_def
        split: subscriber.splits)
next
  case (Data h b)
  then show ?thesis by (simp add: retry_onData)
next
  case (Error h s)
  then show ?thesis by (simp add: onError_def debug_log_def)
next
  case (Close h b)
  then show ?thesis by (simp add: retry_onClose update_socket_def)
next
  case (Timeout i)
  then show ?thesis by (simp add: retryCallback_def retry_initSocket)
next
  case HeartBeatTimeout
  then show ?thesis by (simp add: retry_onClose)
next
  case (Advance n)
  then show ?thesis by simp
next
  case (CallWrite c)
  then show ?thesis by (simp add: retry_write)
next
  case CallResetRetry
  then show ?thesis by (simp add: resetRetry_def Let_def retry_initSocket)
next
  case (CallSubscribe s)
  then show ?thesis by (simp add: subscribe_def)
qed

subsection \<open>Open handles\<close>

lemma at_most_one:
  assumes "distinct xs" "\<forall>x \<in> set xs. x = a"
  shows "length xs \<le> 1"
proof -
  from assms(2) have "set xs \<subseteq> {a}" by auto
  then have "card (set xs) \<le> card {a}" by (intro card_mono) auto
  with assms(1) show ?thesis by (simp add: distinct_card)
qed

lemma open_handles_inv:
  assumes "socket_inv w"
  shows "length (open_handles w) \<le> 1"
proof -
  from assms obtain a where a: "socket w = Some a"
    by (auto simp: socket_inv_def list_ex_iff)
  have "\<forall>x \<in> set (open_handles w). x = a"
    using assms a by (auto simp: socket_inv_def open_handles_def list_all_iff)
  moreover have "distinct (open_handles w)" by (simp add: open_handles_def)
  ultimately show ?thesis by (rule at_most_one [rotated])
qed

lemma length_initSocket:
  "length (sockets (after (initSocket d w))) = Suc (length (sockets w))"
  by (simp add: initSocket_def Let_def debug_log_def destroy_def update_socket_def
      split: option.splits)

lemma new_initSocket:
  "\<not> destroyed (sockets (after (initSocket d w)) ! length (sockets w))"
  by (simp add: initSocket_def Let_def debug_log_def destroy_def update_socket_def
      newSocket_def nth_append split: option.splits)

lemma old_initSocket:
  "h < length (sockets w) \<Longrightarrow>
   destroyed (sockets (after (initSocket d w)) ! h) =
     (destroyed (sockets w ! h) \<or> socket w = Some h)"
  by (auto simp: initSocket_def Let_def debug_log_def destroy_def update_socket_def
      newSocket_def nth_append nth_list_update split: option.splits)

lemma open_handles_initSocket:
  assumes "socket_inv w"
  shows "open_handles (after (initSocket d w)) = [length (sockets w)]"
proof -
  let ?w' = "after (initSocket d w)"
  have "filter (\<lambda>h. \<not> destroyed (sockets ?w' ! h)) [0..<length (sockets w)] = []"
    using assms by (auto simp: filter_empty_conv old_initSocket socket_inv_def list_all_iff)
  then show ?thesis
    by (simp add: open_handles_def length_initSocket new_initSocket)
qed


subsection \<open>The concrete states are reached\<close>

lemma new_fresh: "SocketWorker_new example 0 ''127.0.0.1'' (Num 20880) = Inr fresh_worker"
  by (simp add: SocketWorker_new_def initSocket_def Let_def debug_log_def update_socket_def
      newSocket_def example_def isLegalPort_def fresh_worker_def RETRY_NUM_def)

lemma exec_observed: "exec example fresh_worker [CallSubscribe (Observer 7)] = Some observed_worker"
  by (simp add: observed_worker_def)

lemma retrying_worker_eq:
  "retrying_worker = observed_worker\<lparr>status := RETRY, retryTimeoutId := Some 0, timers := [(0, 3000)],
     nextTimer := 1,
     sockets := [\<lparr>target = Some (Num 20880, ''127.0.0.1''), noDelay = True,
        established = False, destroyed = True, closeEmitted = True, written = []\<rparr>],
     logged := [LogNew, LogConnecting, LogClosed True 20]\<rparr>"
  by (simp add: retrying_worker_def observed_worker_def subscribe_def fresh_worker_def onClose_def Let_def
      debug_log_def update_socket_def clearTimeout_def setTimeout_def RETRY_TIME_def)

lemma connected_worker_eq:
  "connected_worker = observed_worker\<lparr>status := CONNECTED,
     heartBeatTimer := Some (HeartBeat_from 1 (Some 0)),
     sockets := [\<lparr>target = Some (Num 20880, ''127.0.0.1''), noDelay = True,
        established = True, destroyed = False, closeEmitted = False, written = []\<rparr>],
     notified := [(7, OnConnect \<lparr>info_pid = 1, info_host = ''127.0.0.1'', info_port = Num 20880\<rparr>)],
     logged := [LogNew, LogConnecting, LogConnected]\<rparr>"
  by (simp add: connected_worker_def observed_worker_def subscribe_def fresh_worker_def onConnected_def Let_def
      debug_log_def update_socket_def notify_def info_def RETRY_NUM_def)

lemma exec_retrying: "exec example fresh_worker [CallSubscribe (Observer 7), Close 0 True] = Some retrying_worker"
  by (simp add: retrying_worker_def observed_worker_def [symmetric]) (simp add: observed_worker_def subscribe_def fresh_worker_def)

lemma exec_connected: "exec example fresh_worker [CallSubscribe (Observer 7), Connect 0] = Some connected_worker"
  by (simp add: connected_worker_def observed_worker_def [symmetric]) (simp add: observed_worker_def subscribe_def fresh_worker_def)

subsection \<open>The claims\<close>

text \<open>
  C5: in every state a constructed worker reaches, at most one retry timeout is pending;
  and when the close handler schedules a timeout there (the retry count is positive),
  the timeout it schedules is the only one pending afterwards: the earlier one is
  cancelled first.
\<close>

theorem single_retry_timer:
  assumes "SocketWorker_new d pid0 h p = Inr w0" and "exec d w0 es = Some w"
  shows "length (timers w) \<le> 1 \<and>
    (0 < retry w \<longrightarrow> timers (after (onClose e w)) = [(nextTimer w, clock w + RETRY_TIME)])"
proof -
  have i: "worker_inv w" using inv_exec [OF inv_new [OF assms(1)] assms(2)] .
  then have t: "timer_inv w" by (simp add: worker_inv_def)
  then have "filter (\<lambda>p. fst p \<noteq> i) (timers w) = []" if "retryTimeoutId w = Some i" for i
    using that by (auto simp: timer_inv_def list_all_iff filter_empty_conv)
  moreover have "timers w = []" if "retryTimeoutId w = None"
    using that t by (cases "timers w") (auto simp: timer_inv_def)
  ultimately have "0 < retry w \<Longrightarrow>
      timers (after (onClose e w)) = [(nextTimer w, clock w + RETRY_TIME)]"
    by (simp add: onClose_def Let_def debug_log_def clearTimeout_def setTimeout_def
        split: option.splits)
  with t show ?thesis by (simp add: timer_inv_def)
qed

theorem single_retry_timer_witness:
  "SocketWorker_new example 0 ''127.0.0.1'' (Num 20880) = Inr fresh_worker \<and>
   exec example fresh_worker [CallSubscribe (Observer 7), Close 0 True] = Some retrying_worker \<and>
   timers retrying_worker = [(0, 3000)] \<and> 0 < retry retrying_worker \<and>
   timers (after (onClose False retrying_worker)) = [(1, 3000)]"
  using single_retry_timer [OF new_fresh exec_retrying, of False] new_fresh exec_retrying
  by (simp add: retrying_worker_eq observed_worker_def subscribe_def fresh_worker_def RETRY_TIME_def)


text \<open>
  C6: in every state a constructed worker reaches, the retry count lies between 0 and
  the maximum, and an event changes it in one of two ways only: a retry timeout that
  fires takes exactly 1 off (and leaves it non-negative), a socket that connects and a
  call of \<^verbatim>\<open>resetRetry\<close> set it to the maximum. Every other event leaves it as it is.
\<close>

theorem retry_count_steps:
  assumes "SocketWorker_new d pid0 h p = Inr w0" and "exec d w0 es = Some w"
    and "enabled w e"
  shows "0 \<le> retry w \<and> retry w \<le> RETRY_NUM \<and> 0 \<le> retry (after (fire d w e)) \<and>
    retry (after (fire d w e)) =
      (case e of
         Timeout i \<Rightarrow> retry w - 1
       | Connect s \<Rightarrow> RETRY_NUM
       | CallResetRetry \<Rightarrow> RETRY_NUM
       | _ \<Rightarrow> retry w)"
proof -
  have i: "worker_inv w" using inv_exec [OF inv_new [OF assms(1)] assms(2)] .
  have i': "worker_inv (after (fire d w e))" using inv_fire [OF i assms(3)] .
  from i i' show ?thesis by (simp add: worker_inv_def retry_inv_def retry_fire)
qed

theorem retry_count_steps_witness:
  "exec example fresh_worker [CallSubscribe (Observer 7), Close 0 True, Advance 3000]
     = Some (retrying_worker\<lparr>clock := 3000\<rparr>) \<and>
   enabled (retrying_worker\<lparr>clock := 3000\<rparr>) (Timeout 0) \<and>
   retry (retrying_worker\<lparr>clock := 3000\<rparr>) = 20 \<and>
   retry (after (fire example (retrying_worker\<lparr>clock := 3000\<rparr>) (Timeout 0))) = 19"
proof -
  have a: "exec example fresh_worker [CallSubscribe (Observer 7), Close 0 True, Advance 3000]
     = Some (retrying_worker\<lparr>clock := 3000\<rparr>)"
  proof -
    have "exec example fresh_worker ([CallSubscribe (Observer 7), Close 0 True] @ [Advance 3000])
        = Some (retrying_worker\<lparr>clock := 3000\<rparr>)"
      unfolding exec_append exec_retrying
      by (simp add: retrying_worker_eq observed_worker_def subscribe_def fresh_worker_def)
    then show ?thesis by simp
  qed
  have b: "enabled (retrying_worker\<lparr>clock := 3000\<rparr>) (Timeout 0)"
    by (simp add: retrying_worker_eq)
  have c: "retry (retrying_worker\<lparr>clock := 3000\<rparr>) = 20"
    by (simp add: retrying_worker_eq observed_worker_def subscribe_def fresh_worker_def)
  show ?thesis
    using retry_count_steps [OF new_fresh a b] a b c by simp
qed

text \<open>
  C9: in every state a constructed worker reaches, at most one of the sockets it has
  created is not destroyed. The constructor leaves exactly its own socket open; and a
  connect attempt made in such a state, whether by a retry timeout that fires or by
  \<^verbatim>\<open>resetRetry\<close> on a closed worker, leaves exactly the new socket open: the one held
  before is destroyed.
\<close>

theorem single_open_handle:
  assumes "SocketWorker_new d pid0 h p = Inr w0" and "exec d w0 es = Some w"
  shows "open_handles w0 = [0] \<and> length (open_handles w) \<le> 1 \<and>
    open_handles (after (initSocket d w)) = [length (sockets w)] \<and>
    open_handles (after (fire d w (Timeout i))) = [length (sockets w)] \<and>
    (status w = CLOSED \<longrightarrow>
       open_handles (after (fire d w CallResetRetry)) = [length (sockets w)])"
proof -
  have i: "worker_inv w" using inv_exec [OF inv_new [OF assms(1)] assms(2)] .
  then have s: "socket_inv w" by (simp add: worker_inv_def)
  have 0: "open_handles w0 = [0]"
    using assms(1)
    by (auto simp: SocketWorker_new_def initSocket_def Let_def debug_log_def update_socket_def
        newSocket_def open_handles_def split: if_splits)
  have t: "socket_inv (w\<lparr>timers := ts, retry := r\<rparr>)" for ts r
    using s by (simp add: socket_inv_def)
  have r: "socket_inv (w\<lparr>retry := r\<rparr>)" for r
    using s by (simp add: socket_inv_def)
  show ?thesis
    using 0 open_handles_inv [OF s] open_handles_initSocket [OF s, of d]
      open_handles_initSocket [OF t, of d] open_handles_initSocket [OF r, of d]
    by (simp add: retryCallback_def resetRetry_def Let_def)
qed

theorem single_open_handle_witness:
  "exec example fresh_worker [CallSubscribe (Observer 7), Connect 0] = Some connected_worker \<and>
   open_handles connected_worker = [0] \<and>
   open_handles (after (initSocket example connected_worker)) = [1]"
  using single_open_handle [OF new_fresh exec_connected] exec_connected
  by (simp add: connected_worker_eq observed_worker_def subscribe_def fresh_worker_def open_handles_def)

lemma fail_retry:
  assumes "awaiting d k i j w" and "int j < RETRY_NUM"
  shows "\<exists>w'. exec d w (failure j) = Some w' \<and> status w' = RETRY \<and> notified w' = [] \<and>
    timers w' = [(j, clock w + RETRY_TIME)] \<and> clock w' = clock w \<and> retry w' = retry w \<and>
    socket w' = Some j \<and> length (sockets w') = j + 1 \<and> nextTimer w' = Suc j \<and>
    subscriber w' = Observer k \<and> info w' = i \<and> port w' = port w"
  using assms
  by (simp add: awaiting_def failure_def onError_def onClose_def Let_def debug_log_def
      update_socket_def clearTimeout_def setTimeout_def info_def split: option.splits)

lemma fail_closed:
  assumes "awaiting d k i j w" and "int j = RETRY_NUM"
  shows "\<exists>w'. exec d w (failure j) = Some w' \<and> status w' = CLOSED \<and>
    notified w' = [(k, OnClose i)] \<and> legalPort d (port w')"
  using assms
  by (simp add: awaiting_def failure_def onError_def onClose_def Let_def debug_log_def
      update_socket_def destroy_def notify_def info_def split: option.splits)

lemma retry_fires:
  assumes "status w = RETRY" "notified w = []" "timers w = [(j, t)]" "t \<le> clock w"
    "retry w = RETRY_NUM - int j" "socket w = Some j" "length (sockets w) = j + 1"
    "nextTimer w = Suc j" "subscriber w = Observer k" "info w = i" "legalPort d (port w)"
  shows "\<exists>w'. exec d w [Timeout j] = Some w' \<and> awaiting d k i (Suc j) w' \<and> status w' = RETRY"
  using assms
  by (simp add: awaiting_def retryCallback_def initSocket_def Let_def debug_log_def
      update_socket_def destroy_def info_def newSocket_def nth_append)


lemma cycle:
  assumes "awaiting d k i j w" and "int j < RETRY_NUM"
  shows "\<exists>w'. exec d w (retry_cycle j) = Some w' \<and> awaiting d k i (Suc j) w'"
proof -
  from fail_retry [OF assms] obtain w1 where
    1: "exec d w (failure j) = Some w1" "status w1 = RETRY" "notified w1 = []"
      "timers w1 = [(j, clock w + RETRY_TIME)]" "clock w1 = clock w" "retry w1 = retry w"
      "socket w1 = Some j" "length (sockets w1) = j + 1" "nextTimer w1 = Suc j"
      "subscriber w1 = Observer k" "info w1 = i" "port w1 = port w"
    by blast
  let ?w2 = "w1\<lparr>clock := clock w1 + RETRY_TIME\<rparr>"
  from assms(1) have r: "retry w = RETRY_NUM - int j" and l: "legalPort d (port w)"
    by (simp_all add: awaiting_def)
  have "\<exists>w'. exec d ?w2 [Timeout j] = Some w' \<and> awaiting d k i (Suc j) w' \<and> status w' = RETRY"
    using 1 r l by (intro retry_fires [where t = "clock w + RETRY_TIME"]) (simp_all add: info_def)
  then obtain w3 where 3: "exec d ?w2 [Timeout j] = Some w3" "awaiting d k i (Suc j) w3"
    by blast
  have "exec d w (failure j @ [Advance RETRY_TIME] @ [Timeout j]) = Some w3"
    unfolding exec_append using 1(1) 3(1) by simp
  then show ?thesis using 3(2) by (simp add: retry_cycle_def)
qed

lemma cycles:
  assumes "awaiting d k i j w" and "int (j + m) \<le> RETRY_NUM"
  shows "\<exists>w'. exec d w (concat (map retry_cycle [j..<j + m])) = Some w' \<and>
    awaiting d k i (j + m) w'"
  using assms(2)
proof (induction m)
  case 0
  then show ?case using assms(1) by simp
next
  case (Suc m)
  then obtain w1 where 1: "exec d w (concat (map retry_cycle [j..<j + m])) = Some w1"
    "awaiting d k i (j + m) w1"
    by auto
  from Suc.prems have "int (j + m) < RETRY_NUM" by simp
  from cycle [OF 1(2) this] obtain w2 where
    2: "exec d w1 (retry_cycle (j + m)) = Some w2" "awaiting d k i (Suc (j + m)) w2"
    by blast
  have "exec d w (concat (map retry_cycle [j..<j + m]) @ retry_cycle (j + m)) = Some w2"
    unfolding exec_append using 1(1) 2(1) by simp
  then show ?case using 2(2) by simp
qed

lemma awaiting_new:
  assumes "legalPort d p"
  shows "\<exists>w0. SocketWorker_new d pid0 h p = Inr w0 \<and>
    awaiting d k \<lparr>info_pid = pid0 + 1, info_host = h, info_port = p\<rparr> 0
      (subscribe (Observer k) w0)"
  using assms
  by (simp add: SocketWorker_new_def initSocket_def Let_def debug_log_def update_socket_def
      newSocket_def awaiting_def subscribe_def info_def RETRY_NUM_def)

lemma failures_retry:
  assumes "awaiting d k i 0 w" and "1 \<le> n" and "int n \<le> RETRY_NUM"
  shows "\<exists>w'. exec d w (failures n) = Some w' \<and> status w' = RETRY \<and> notified w' = []"
proof -
  from assms have "int (0 + (n - 1)) \<le> RETRY_NUM" by simp
  from cycles [OF assms(1) this] obtain w1 where
    1: "exec d w (concat (map retry_cycle [0..<n - 1])) = Some w1" "awaiting d k i (n - 1) w1"
    by auto
  from assms have "int (n - 1) < RETRY_NUM" by simp
  from fail_retry [OF 1(2) this] obtain w2 where
    "exec d w1 (failure (n - 1)) = Some w2" "status w2 = RETRY" "notified w2 = []"
    by blast
  then show ?thesis using 1(1) by (simp add: failures_def exec_append)
qed

lemma failures_closed:
  assumes "awaiting d k i 0 w"
  shows "\<exists>w'. exec d w (failures 21) = Some w' \<and> status w' = CLOSED \<and>
    notified w' = [(k, OnClose i)] \<and> legalPort d (port w')"
proof -
  have "int (0 + 20) \<le> RETRY_NUM" by (simp add: RETRY_NUM_def)
  from cycles [OF assms this] obtain w1 where
    1: "exec d w (concat (map retry_cycle [0..<20])) = Some w1" "awaiting d k i 20 w1"
    by auto
  have "int 20 = RETRY_NUM" by (simp add: RETRY_NUM_def)
  from fail_closed [OF 1(2) this] obtain w2 where
    "exec d w1 (failure 20) = Some w2" "status w2 = CLOSED" "notified w2 = [(k, OnClose i)]"
    "legalPort d (port w2)"
    by blast
  then show ?thesis using 1(1) by (simp add: failures_def exec_append)
qed

lemma from_url_fresh: "from_url example 0 ''127.0.0.1:20880'' = Inr fresh_worker"
proof -
  have "split CHR '':'' ''127.0.0.1:20880'' = [''127.0.0.1'', ''20880'']" by simp
  moreover have "Number example (Some ''20880'') = Num 20880"
    by (simp add: example_def Number_digits_def)
  ultimately show ?thesis by (simp add: from_url_def new_fresh)
qed

lemma awaiting_observed:
  "awaiting example 7 \<lparr>info_pid = 1, info_host = ''127.0.0.1'', info_port = Num 20880\<rparr> 0 observed_worker"
  by (simp add: awaiting_def observed_worker_def subscribe_def fresh_worker_def info_def example_def
      isLegalPort_def RETRY_NUM_def)

lemma exec_exhausted:
  "exec example observed_worker (failures 21) = Some exhausted_worker \<and> status exhausted_worker = CLOSED \<and>
   notified exhausted_worker =
     [(7, OnClose \<lparr>info_pid = 1, info_host = ''127.0.0.1'', info_port = Num 20880\<rparr>)] \<and>
   legalPort example (port exhausted_worker)"
  using failures_closed [OF awaiting_observed] by (auto simp: exhausted_worker_def)

lemma run_observed:
  "run example 0 ''127.0.0.1:20880'' (CallSubscribe (Observer 7) # es) = exec example observed_worker es"
  by (simp add: run_def from_url_fresh observed_worker_def)

lemma reset_closed:
  assumes "status w = CLOSED" and "legalPort d (port w)"
  shows "\<exists>w'. resetRetry d w = Inr w' \<and> status w' = CLOSED \<and> retry w' = RETRY_NUM \<and>
    socket w' = Some (length (sockets w)) \<and> length (sockets w') = Suc (length (sockets w)) \<and>
    enabled w' (Connect (length (sockets w))) \<and>
    status (after (fire d w' (Connect (length (sockets w))))) = CONNECTED \<and>
    status (after (fire d w' (Close (length (sockets w)) e))) = RETRY"
  using assms
  by (simp add: resetRetry_def initSocket_def Let_def debug_log_def destroy_def
      update_socket_def newSocket_def nth_append onConnected_def notify_def onClose_def
      clearTimeout_def setTimeout_def RETRY_NUM_def
      split: option.splits subscriber.splits)

text \<open>
  C1, as amended: a worker is constructed for an endpoint whose port the transport
  accepts, an observer subscribes, and every attempt to connect fails, each retry
  timeout firing once its delay of \<open>RETRY_TIME\<close> has passed. After each of the
  first 20 failures the status is \<open>RETRY\<close> and the observer has been told nothing;
  after the 21st failure (the first attempt and \<open>RETRY_NUM = 20\<close> retries) the status
  is \<open>CLOSED\<close> and the observer has received exactly one \<^verbatim>\<open>onClose\<close>, with the
  worker's pid, host and port.
\<close>

theorem closed_after_21_failures:
  assumes "legalPort d p"
  shows "\<exists>w0. SocketWorker_new d pid0 h p = Inr w0 \<and>
    (\<forall>n. 1 \<le> n \<and> n \<le> 20 \<longrightarrow>
       (\<exists>w. exec d w0 (CallSubscribe (Observer k) # failures n) = Some w \<and>
            status w = RETRY \<and> notified w = [])) \<and>
    (\<exists>w. exec d w0 (CallSubscribe (Observer k) # failures 21) = Some w \<and>
         status w = CLOSED \<and>
         notified w = [(k, OnClose \<lparr>info_pid = pid0 + 1, info_host = h, info_port = p\<rparr>)])"
proof -
  from awaiting_new [OF assms] obtain w0 where
    0: "SocketWorker_new d pid0 h p = Inr w0"
      "awaiting d k \<lparr>info_pid = pid0 + 1, info_host = h, info_port = p\<rparr> 0
        (subscribe (Observer k) w0)"
    by blast
  have "\<exists>w. exec d w0 (CallSubscribe (Observer k) # failures n) = Some w \<and>
      status w = RETRY \<and> notified w = []" if "1 \<le> n" "n \<le> 20" for n
    using failures_retry [OF 0(2), of n] that by (simp add: RETRY_NUM_def)
  moreover have "\<exists>w. exec d w0 (CallSubscribe (Observer k) # failures 21) = Some w \<and>
      status w = CLOSED \<and>
      notified w = [(k, OnClose \<lparr>info_pid = pid0 + 1, info_host = h, info_port = p\<rparr>)]"
    using failures_closed [OF 0(2)] by auto
  ultimately show ?thesis using 0(1) by blast
qed

theorem closed_after_21_failures_witness:
  "legalPort example (Num 20880) \<and>
   map_option status
     (run example 0 ''127.0.0.1:20880'' (CallSubscribe (Observer 7) # failures 21))
     = Some CLOSED \<and>
   map_option notified
     (run example 0 ''127.0.0.1:20880'' (CallSubscribe (Observer 7) # failures 21))
     = Some [(7, OnClose \<lparr>info_pid = 1, info_host = ''127.0.0.1'', info_port = Num 20880\<rparr>)]"
proof -
  have l: "legalPort example (Num 20880)" by (simp add: example_def isLegalPort_def)
  from closed_after_21_failures [OF l, of 0 "''127.0.0.1''" 7] obtain w where
    "exec example fresh_worker (CallSubscribe (Observer 7) # failures 21) = Some w"
    "status w = CLOSED"
    "notified w = [(7, OnClose \<lparr>info_pid = 0 + 1, info_host = ''127.0.0.1'', info_port = Num 20880\<rparr>)]"
    by (auto simp: new_fresh)
  then show ?thesis using l by (simp add: run_def from_url_fresh)
qed

theorem not_closed_after_20_failures:
  "map_option status
     (run example 0 ''127.0.0.1:20880'' (CallSubscribe (Observer 7) # failures 20))
     = Some RETRY \<and>
   map_option notified
     (run example 0 ''127.0.0.1:20880'' (CallSubscribe (Observer 7) # failures 20))
     = Some []"
  using failures_retry [OF awaiting_observed, of 20]
  by (auto simp: run_observed RETRY_NUM_def)

text \<open>
  C4, as amended: when \<^verbatim>\<open>resetRetry\<close> is called on a worker whose status is
  \<open>CLOSED\<close> (and whose port the transport accepts), the retry count is set to the
  maximum and a new socket starts to connect, but the status is not set to
  \<open>PADDING\<close>: it is still \<open>CLOSED\<close> when the call returns, with the new attempt
  in flight.
\<close>

theorem resetRetry_stays_closed:
  assumes "status w = CLOSED" and "legalPort d (port w)"
  shows "\<exists>w'. resetRetry d w = Inr w' \<and> status w' = CLOSED \<and> retry w' = RETRY_NUM \<and>
    socket w' = Some (length (sockets w)) \<and>
    enabled w' (Connect (length (sockets w)))"
  using reset_closed [OF assms, of True] by blast

theorem resetRetry_stays_closed_witness:
  "status exhausted_worker = CLOSED \<and> legalPort example (port exhausted_worker) \<and>
   status (after (resetRetry example exhausted_worker)) = CLOSED \<and>
   retry (after (resetRetry example exhausted_worker)) = 20"
  using resetRetry_stays_closed [of exhausted_worker example] exec_exhausted
  by (auto simp: RETRY_NUM_def)

theorem resetRetry_no_padding:
  "map_option status
     (run example 0 ''127.0.0.1:20880''
        (CallSubscribe (Observer 7) # failures 21 @ [CallResetRetry]))
     = Some CLOSED"
proof -
  from reset_closed [of exhausted_worker example True] exec_exhausted
  have "status (after (resetRetry example exhausted_worker)) = CLOSED" by auto
  then show ?thesis
    using exec_exhausted by (simp add: run_observed exec_append)
qed

subsection \<open>Timeouts are scheduled by the close handler only\<close>

lemma timers_control: "timers (control w) = timers w"
  by (simp add: control_def)

lemma timers_initSocket: "timers (after (initSocket d w)) = timers w"
  by (simp add: initSocket_def Let_def debug_log_def destroy_def update_socket_def
      split: option.splits)

lemma timers_onData: "timers (after (onData d b w)) = timers w"
  using arg_cong [OF control_onData, of timers d b w] by (simp add: control_def)

lemma timers_write: "timers (after (write_ctx d c w)) = timers w"
  by (simp add: write_ctx_def Let_def debug_log_def socket_write_def update_socket_def
      split: option.splits)

lemma timers_fire:
  assumes "\<forall>s b. e \<noteq> Close s b" and "e \<noteq> HeartBeatTimeout"
  shows "set (timers (after (fire d w e))) \<subseteq> set (timers w)"
proof (cases e)
  case (Connect h)
  then show ?thesis
    by (simp add: onConnected_def Let_def debug_log_def notify_def update_socket_def
        split: subscriber.splits)
next
  case (Data h b)
  then show ?thesis by (simp add: timers_onData)
next
  case (Error h s)
  then show ?thesis by (simp add: onError_def debug_log_def)
next
  case (Close h b)
  then show ?thesis using assms by simp
next
  case (Timeout i)
  then show ?thesis by (simp add: retryCallback_def timers_initSocket)
next
  case HeartBeatTimeout
  then show ?thesis using assms by simp
next
  case (Advance n)
  then show ?thesis by simp
next
  case (CallWrite c)
  then show ?thesis by (simp add: timers_write)
next
  case CallResetRetry
  then show ?thesis by (simp add: resetRetry_def Let_def timers_initSocket)
next
  case (CallSubscribe s)
  then show ?thesis by (simp add: subscribe_def)
qed

text \<open>
  C7: the \<^verbatim>\<open>error\<close> event of a socket adds an entry to the log and changes nothing
  else: status, retry count, pending timeouts, the timeout the worker holds, the frame
  assembler's buffer, the subscriber and the sockets are as before. A timeout is only
  ever scheduled by a \<^verbatim>\<open>close\<close> event or by the heartbeat monitor's forced close:
  no other event adds a pending timeout.
\<close>

theorem error_changes_nothing:
  "fire d w (Error h err) = Inr (w\<lparr>logged := logged w @ [LogError err]\<rparr>) \<and>
   status (after (fire d w (Error h err))) = status w \<and>
   retry (after (fire d w (Error h err))) = retry w \<and>
   timers (after (fire d w (Error h err))) = timers w \<and>
   retryTimeoutId (after (fire d w (Error h err))) = retryTimeoutId w \<and>
   decodeBuff (after (fire d w (Error h err))) = decodeBuff w \<and>
   subscriber (after (fire d w (Error h err))) = subscriber w \<and>
   sockets (after (fire d w (Error h err))) = sockets w \<and>
   (\<forall>e. (\<forall>s b. e \<noteq> Close s b) \<and> e \<noteq> HeartBeatTimeout \<longrightarrow>
      set (timers (after (fire d w e))) \<subseteq> set (timers w))"
  using timers_fire [of _ d w] by (simp add: onError_def debug_log_def)

theorem error_changes_nothing_witness:
  "fire example connected_worker (Error 0 ''ECONNRESET'')
     = Inr (connected_worker\<lparr>logged := logged connected_worker @ [LogError ''ECONNRESET'']\<rparr>) \<and>
   status (after (fire example connected_worker (Error 0 ''ECONNRESET''))) = CONNECTED \<and>
   retry (after (fire example connected_worker (Error 0 ''ECONNRESET''))) = 20 \<and>
   timers (after (fire example connected_worker (Error 0 ''ECONNRESET''))) = [] \<and>
   set (timers (after (fire example connected_worker (Advance 5)))) \<subseteq> set (timers connected_worker)"
proof -
  have "status connected_worker = CONNECTED" "retry connected_worker = 20" "timers connected_worker = []"
    by (simp_all add: connected_worker_eq observed_worker_def subscribe_def fresh_worker_def)
  then show ?thesis
    using error_changes_nothing [of example connected_worker 0 "''ECONNRESET''"] by simp
qed

text \<open>
  C3: in every state, \<^verbatim>\<open>resetRetry\<close> leaves the retry count at the maximum. When
  the status is not \<open>CLOSED\<close> that is all it does: it returns the state with the
  count reset. When the status is \<open>CLOSED\<close> it also makes a connect attempt: one
  more socket exists afterwards, and the worker holds it.
\<close>

theorem resetRetry_effect:
  "retry (after (resetRetry d w)) = RETRY_NUM \<and>
   (status w \<noteq> CLOSED \<longrightarrow> resetRetry d w = Inr (w\<lparr>retry := RETRY_NUM\<rparr>)) \<and>
   (status w = CLOSED \<longrightarrow>
      length (sockets (after (resetRetry d w))) = Suc (length (sockets w)) \<and>
      socket (after (resetRetry d w)) = Some (length (sockets w)) \<and>
      \<not> destroyed (sockets (after (resetRetry d w)) ! length (sockets w)) \<and>
      (legalPort d (port w) \<longrightarrow>
         enabled (after (resetRetry d w)) (Connect (length (sockets w))))) \<and>
   length (sockets (after (resetRetry d w))) =
     (if status w = CLOSED then Suc (length (sockets w)) else length (sockets w))"
  by (simp add: resetRetry_def initSocket_def Let_def debug_log_def destroy_def
      update_socket_def newSocket_def nth_append split: option.splits)

theorem resetRetry_effect_witness:
  "status connected_worker \<noteq> CLOSED \<and>
   resetRetry example connected_worker = Inr (connected_worker\<lparr>retry := RETRY_NUM\<rparr>) \<and>
   status exhausted_worker = CLOSED \<and>
   length (sockets (after (resetRetry example exhausted_worker))) = Suc (length (sockets exhausted_worker)) \<and>
   socket (after (resetRetry example exhausted_worker)) = Some (length (sockets exhausted_worker)) \<and>
   enabled (after (resetRetry example exhausted_worker)) (Connect (length (sockets exhausted_worker)))"
proof -
  have "status connected_worker \<noteq> CLOSED"
    by (simp add: connected_worker_eq observed_worker_def subscribe_def fresh_worker_def)
  then show ?thesis
    using resetRetry_effect [of example connected_worker] resetRetry_effect [of example exhausted_worker]
      exec_exhausted
    by simp
qed

subsection \<open>The factory\<close>

lemma from_url_cases:
  "(let parts = split CHR '':'' url;
        h = (case parts of [] \<Rightarrow> [] | x # _ \<Rightarrow> x);
        p = Number d (case parts of _ # y # _ \<Rightarrow> Some y | _ \<Rightarrow> None)
    in if legalPort d p
       then (\<exists>w. from_url d pid0 url = Inr w \<and> pid w = pid0 + 1 \<and> host w = h \<and>
              port w = p \<and> status w = PADDING \<and> retry w = RETRY_NUM \<and>
              subscriber w = Noop \<and> socket w = Some 0 \<and> length (sockets w) = 1 \<and>
              enabled w (Connect 0))
       else (\<exists>w. from_url d pid0 url = Inl (RangeError, w)))"
  by (simp add: from_url_def SocketWorker_new_def initSocket_def Let_def debug_log_def
      update_socket_def newSocket_def)

lemma split_examples:
  "split CHR '':'' ''127.0.0.1:70000'' = [''127.0.0.1'', ''70000'']"
  "split CHR '':'' ''127.0.0.1:'' = [''127.0.0.1'', '''']"
  "split CHR '':'' ''127.0.0.1:abc'' = [''127.0.0.1'', ''abc'']"
  "split CHR '':'' ''127.0.0.1:20880'' = [''127.0.0.1'', ''20880'']"
  by simp_all

lemma Number_examples:
  "Number example (Some ''70000'') = Num 70000"
  "Number example (Some '''') = Num 0"
  "Number example (Some ''abc'') = NaN"
  "Number example (Some ''20880'') = Num 20880"
  by (simp_all add: example_def Number_digits_def)

lemma legalPort_examples:
  "\<not> legalPort example (Num 70000)" "legalPort example (Num 0)" "\<not> legalPort example NaN"
  "legalPort example (Num 20880)"
  by (simp_all add: example_def isLegalPort_def)

text \<open>
  C8, as amended: the factory and the constructor check nothing themselves. Construction
  from an endpoint string fails exactly when the transport's \<^verbatim>\<open>connect\<close> rejects
  the port, which is \<^verbatim>\<open>Number\<close> of the text between the first and the second colon
  (of \<^verbatim>\<open>undefined\<close> when there is no colon); the failure is the \<^verbatim>\<open>RangeError\<close>
  of \<^verbatim>\<open>connect\<close>, raised inside the constructor. Otherwise construction returns a
  worker with the next pid, the host before the first colon, that port, status
  \<open>PADDING\<close>, the full retry count, no observer, and one socket that is connecting.
\<close>

theorem from_url_outcome:
  "(let parts = split CHR '':'' url;
        h = (case parts of [] \<Rightarrow> [] | x # _ \<Rightarrow> x);
        p = Number d (case parts of _ # y # _ \<Rightarrow> Some y | _ \<Rightarrow> None)
    in if legalPort d p
       then (\<exists>w. from_url d pid0 url = Inr w \<and> pid w = pid0 + 1 \<and> host w = h \<and>
              port w = p \<and> status w = PADDING \<and> retry w = RETRY_NUM \<and>
              subscriber w = Noop \<and> socket w = Some 0 \<and> length (sockets w) = 1 \<and>
              enabled w (Connect 0))
       else (\<exists>w. from_url d pid0 url = Inl (RangeError, w)))"
  using from_url_cases [of url d pid0] .

theorem from_url_outcome_witness:
  "(\<exists>w. from_url example 0 ''127.0.0.1:20880'' = Inr w \<and> pid w = 1 \<and>
      host w = ''127.0.0.1'' \<and> port w = Num 20880 \<and> status w = PADDING \<and>
      enabled w (Connect 0)) \<and>
   (\<exists>w. from_url example 0 ''127.0.0.1:abc'' = Inl (RangeError, w))"
  using from_url_outcome [of "''127.0.0.1:20880''" example 0]
    from_url_outcome [of "''127.0.0.1:abc''" example 0]
  unfolding split_examples
  by (auto simp: Number_examples legalPort_examples)

theorem from_url_not_by_numeric_port:
  "isl (from_url example 0 ''127.0.0.1:70000'') \<and> \<not> isl (from_url example 0 ''127.0.0.1:'')"
  using from_url_cases [of "''127.0.0.1:70000''" example 0]
    from_url_cases [of "''127.0.0.1:''" example 0]
  unfolding split_examples
  by (auto simp: Number_examples legalPort_examples)

subsection \<open>Frames\<close>

text \<open>
  C2: for a frame handed to the frame callback. If it is a heartbeat probe, the observer
  is told nothing, whatever the outcome, and when a heartbeat monitor exists the only
  changes are the monitor's liveness stamp and a log entry. If it is not a heartbeat
  probe and the decoder returns a response, that response is handed to the
  subscriber's \<^verbatim>\<open>onData\<close> (recorded for an observer) and the monitor is left alone;
  if the decoder throws, its exception leaves the callback with the state unchanged.
\<close>

theorem frame_dispatch:
  "(isHeartBeat d data \<longrightarrow>
      notified (after (onSubscribeDecodeBuff d data w)) = notified w \<and>
      (\<forall>hb. heartBeatTimer w = Some hb \<longrightarrow>
         onSubscribeDecodeBuff d data w =
           Inr (w\<lparr>heartBeatTimer := Some (emit (clock w) hb),
                  logged := logged w @ [LogHeartbeat]\<rparr>))) \<and>
   (\<not> isHeartBeat d data \<longrightarrow>
      (\<forall>json. decodeDubboResponse d data = Some json \<longrightarrow>
         (\<exists>w'. onSubscribeDecodeBuff d data w = Inr w' \<and>
            notified w' =
              (case subscriber w of
                 Noop \<Rightarrow> notified w
               | Observer k \<Rightarrow> notified w @ [(k, OnData json)]) \<and>
            heartBeatTimer w' = heartBeatTimer w)) \<and>
      (decodeDubboResponse d data = None \<longrightarrow>
         onSubscribeDecodeBuff d data w = Inl (DecodeError, w)))"
  by (auto simp: onSubscribeDecodeBuff_def Let_def debug_log_def notify_def
      split: option.splits subscriber.splits)

theorem frame_dispatch_witness:
  "isHeartBeat example [0xda, 0xbb, 0xe2] \<and>
   notified (after (onSubscribeDecodeBuff example [0xda, 0xbb, 0xe2] connected_worker))
     = notified connected_worker \<and>
   map_option lastLiveness
     (heartBeatTimer (after (onSubscribeDecodeBuff example [0xda, 0xbb, 0xe2] connected_worker)))
     = Some (Some 0) \<and>
   \<not> isHeartBeat example [1, 2, 3] \<and>
   notified (after (onSubscribeDecodeBuff example [1, 2, 3] connected_worker))
     = notified connected_worker @ [(7, OnData [1, 2, 3])]"
proof -
  have h: "isHeartBeat example [0xda, 0xbb, 0xe2]" "\<not> isHeartBeat example [1, 2, 3]"
    "decodeDubboResponse example [1, 2, 3] = Some [1, 2, 3]"
    by (simp_all add: example_def)
  have c: "heartBeatTimer connected_worker = Some (HeartBeat_from 1 (Some 0))"
    "subscriber connected_worker = Observer 7" "clock connected_worker = 0"
    by (simp_all add: connected_worker_eq observed_worker_def subscribe_def fresh_worker_def)
  show ?thesis
    using frame_dispatch [of example "[0xda, 0xbb, 0xe2]" connected_worker]
      frame_dispatch [of example "[1, 2, 3]" connected_worker] h c
    by (auto simp: emit_def)
qed

subsection \<open>Writing before the first connection\<close>

lemma hb_frame:
  "heartBeatTimer w = None \<Longrightarrow> heartBeatTimer (after (onSubscribeDecodeBuff d f w)) = None"
  by (auto simp: onSubscribeDecodeBuff_def Let_def debug_log_def notify_def
      split: option.splits subscriber.splits)

lemma hb_deliver:
  "heartBeatTimer w = None \<Longrightarrow> heartBeatTimer (after (deliver d fs w)) = None"
proof (induction fs arbitrary: w)
  case Nil
  then show ?case by simp
next
  case (Cons f fs)
  show ?case
  proof (cases "onSubscribeDecodeBuff d f w")
    case (Inl x)
    then show ?thesis using hb_frame [OF Cons.prems, of d f] by (cases x) simp
  next
    case (Inr w')
    then show ?thesis using hb_frame [OF Cons.prems, of d f] Cons.IH [of w'] by simp
  qed
qed

lemma hb_initSocket: "heartBeatTimer (after (initSocket d w)) = heartBeatTimer w"
  by (simp add: initSocket_def Let_def debug_log_def destroy_def update_socket_def
      split: option.splits)

lemma hb_onClose: "heartBeatTimer (after (onClose e w)) = heartBeatTimer w"
  by (simp add: onClose_def Let_def debug_log_def destroy_def update_socket_def
      clearTimeout_def setTimeout_def notify_def split: option.splits subscriber.splits)

lemma hb_fire:
  assumes "heartBeatTimer w = None" and "status (after (fire d w e)) \<noteq> CONNECTED"
  shows "heartBeatTimer (after (fire d w e)) = None"
proof (cases e)
  case (Connect h)
  then show ?thesis using assms(2)
    by (simp add: onConnected_def Let_def debug_log_def notify_def split: subscriber.splits)
next
  case (Data h b)
  obtain fs r where "receive d (decodeBuff (debug_log LogReceiveData w)) b = (fs, r)"
    by (cases "receive d (decodeBuff (debug_log LogReceiveData w)) b")
  then show ?thesis using Data assms(1)
    by (simp add: onData_def Let_def hb_deliver debug_log_def)
next
  case (Error h s)
  then show ?thesis using assms(1) by (simp add: onError_def debug_log_def)
next
  case (Close h b)
  then show ?thesis using assms(1) by (simp add: hb_onClose update_socket_def)
next
  case (Timeout i)
  then show ?thesis using assms(1) by (simp add: retryCallback_def hb_initSocket)
next
  case HeartBeatTimeout
  then show ?thesis using assms(1) by (simp add: hb_onClose)
next
  case (Advance n)
  then show ?thesis using assms(1) by simp
next
  case (CallWrite c)
  then show ?thesis using assms(1) by (simp add: write_ctx_def Let_def debug_log_def)
next
  case CallResetRetry
  then show ?thesis using assms(1) by (simp add: resetRetry_def Let_def hb_initSocket)
next
  case (CallSubscribe s)
  then show ?thesis using assms(1) by (simp add: subscribe_def)
qed

lemma hb_exec:
  assumes "heartBeatTimer w = None" and "exec d w es = Some w'"
    and "list_all (\<lambda>s. status s \<noteq> CONNECTED) (visited d w es)"
  shows "heartBeatTimer w' = None"
  using assms
proof (induction es arbitrary: w)
  case Nil
  then show ?case by simp
next
  case (Cons e es)
  let ?w1 = "after (fire d w e)"
  from Cons.prems(2) have ex: "exec d ?w1 es = Some w'" by (simp split: if_splits)
  from Cons.prems(3) have v: "list_all (\<lambda>s. status s \<noteq> CONNECTED) (visited d ?w1 es)"
    by simp
  then have "status ?w1 \<noteq> CONNECTED" by (cases es) simp_all
  from hb_fire [OF Cons.prems(1) this] have "heartBeatTimer ?w1 = None" .
  from Cons.IH [OF this ex v] show ?case .
qed

lemma hb_new: "SocketWorker_new d pid0 h p = Inr w \<Longrightarrow> heartBeatTimer w = None"
  by (auto simp: SocketWorker_new_def initSocket_def Let_def debug_log_def update_socket_def
      split: if_splits)

text \<open>
  C10: for a worker that was constructed and has since passed through no state with
  status \<open>CONNECTED\<close>, \<^verbatim>\<open>write\<close> throws a \<^verbatim>\<open>TypeError\<close> (the heartbeat monitor
  is still \<^verbatim>\<open>undefined\<close>), and the sockets are as they were: nothing was written.
\<close>

theorem write_before_connected:
  assumes "SocketWorker_new d pid0 h p = Inr w0" and "exec d w0 es = Some w"
    and "list_all (\<lambda>s. status s \<noteq> CONNECTED) (visited d w0 es)"
  shows "\<exists>w'. write_ctx d ctx w = Inl (TypeError, w') \<and> sockets w' = sockets w"
proof -
  have "heartBeatTimer w = None"
    using hb_exec [OF hb_new [OF assms(1)] assms(2) assms(3)] .
  then show ?thesis by (simp add: write_ctx_def Let_def debug_log_def)
qed

theorem write_before_connected_witness:
  "exec example fresh_worker [CallSubscribe (Observer 7), Close 0 True] = Some retrying_worker \<and>
   map status (visited example fresh_worker [CallSubscribe (Observer 7), Close 0 True])
     = [PADDING, PADDING, RETRY] \<and>
   (\<exists>w'. write_ctx example \<lparr>requestId = 1, ctx_pid = None\<rparr> retrying_worker = Inl (TypeError, w') \<and>
      sockets w' = sockets retrying_worker)"
proof -
  have "visited example fresh_worker [CallSubscribe (Observer 7), Close 0 True]
      = [fresh_worker, observed_worker, retrying_worker]"
    by (simp add: retrying_worker_def observed_worker_def)
  then have v: "map status (visited example fresh_worker [CallSubscribe (Observer 7), Close 0 True])
     = [PADDING, PADDING, RETRY]"
    by (simp add: retrying_worker_eq observed_worker_def subscribe_def fresh_worker_def)
  then have "list_all (\<lambda>s. s \<noteq> CONNECTED)
      (map status (visited example fresh_worker [CallSubscribe (Observer 7), Close 0 True]))"
    by simp
  then have "list_all (\<lambda>s. status s \<noteq> CONNECTED)
      (visited example fresh_worker [CallSubscribe (Observer 7), Close 0 True])"
    by (simp add: list_all_iff)
  from write_before_connected [OF new_fresh exec_retrying this] v exec_retrying
  show ?thesis by simp
qed

end
